theory Spec2Isabelle
  imports Main
begin

section \<open>Configuration and credential routing of candy-lfs (config.py)\<close>

text \<open>
  A shallow embedding of \<^verbatim>\<open>src/candy_lfs/config.py\<close>. The class \<^verbatim>\<open>Config\<close> keeps one
  dictionary \<^verbatim>\<open>self._config\<close>, writes it to a YAML file on every mutation and talks to
  \<^verbatim>\<open>git\<close> through \<^verbatim>\<open>subprocess.run\<close>. The embedding passes the state explicitly:
  the dictionary, the contents of the configuration file, and the list of subprocess
  invocations issued so far. Everything the module does not implement itself (the
  process environment, the subprocesses, the YAML codec, two validation helpers of
  \<^verbatim>\<open>urllib.parse\<close>) is a field of one record of parameters, \<open>environment\<close>.

  Python strings are modelled as \<open>string\<close>, a list of 8-bit characters: a character
  stands for the code point of the same number. Asynchronous interrupts
  (\<^verbatim>\<open>KeyboardInterrupt\<close>) and failures of the file system while writing the
  configuration file are outside the model.
\<close>

subsection \<open>Exceptions, subprocess results, the settings document\<close>

text \<open>The subclasses of Python's \<^verbatim>\<open>Exception\<close> that the library calls of the module raise.\<close>

datatype py_error = OSError | TimeoutExpired | UnicodeError | ValueError | YAMLError

text \<open>One call of \<^verbatim>\<open>subprocess.run(args, input=..., capture_output=True, text=True, timeout=5)\<close>.\<close>

record invocation =
  args :: "string list"
  input :: "string option"

text \<open>The \<^verbatim>\<open>CompletedProcess\<close> fields the module reads.\<close>

record completed_process =
  returncode :: int
  stdout :: string

text \<open>An element of the \<^verbatim>\<open>tenants\<close> list: a dictionary with the keys \<^verbatim>\<open>tenant_id\<close>, \<^verbatim>\<open>name\<close>.\<close>

record tenant =
  tenant_id :: string
  name :: string

text \<open>
  The dictionary \<^verbatim>\<open>self._config\<close>, with the five keys the module uses and the value
  types of its annotations. \<open>None\<close> in a field means that the key is absent from the
  dictionary; \<^verbatim>\<open>current_tenant\<close> may also be present with the value \<^verbatim>\<open>None\<close>.
\<close>

record settings =
  cfg_api_endpoint :: "string option"
  cfg_lfs_endpoint :: "string option"
  cfg_current_tenant :: "string option option"
  cfg_tenants :: "tenant list option"
  cfg_tenant_repos :: "(string \<rightharpoonup> string list) option"

text \<open>
  What the module takes from outside: \<^verbatim>\<open>os.environ\<close> as it is when the module is
  imported; \<^verbatim>\<open>urllib.parse._check_bracketed_host\<close> and \<^verbatim>\<open>_checknetloc\<close> (\<open>True\<close> when
  the check passes, \<open>False\<close> when it raises \<^verbatim>\<open>ValueError\<close>); the outcome of
  \<^verbatim>\<open>subprocess.run\<close>, which may depend on the invocations made before it; and
  \<^verbatim>\<open>yaml.dump\<close>, \<^verbatim>\<open>yaml.safe_load\<close> (whose result \<open>None\<close> is an empty YAML stream).
\<close>

record environment =
  environ :: "string \<rightharpoonup> string"
  check_bracketed_host :: "string \<Rightarrow> bool"
  checknetloc :: "string \<Rightarrow> bool"
  subprocess_run :: "invocation list \<Rightarrow> invocation \<Rightarrow> py_error + completed_process"
  yaml_dump :: "settings \<Rightarrow> string"
  yaml_safe_load :: "string \<Rightarrow> py_error + settings option"

text \<open>
  The state: \<^verbatim>\<open>self._config\<close>, the contents of \<^verbatim>\<open>CONFIG_FILE\<close> (\<open>None\<close> when the file
  does not exist), and the subprocess invocations made so far, oldest first.
\<close>

record state =
  config :: settings
  config_file :: "string option"
  calls :: "invocation list"

definition empty_settings :: settings where
  "empty_settings =
     \<lparr>cfg_api_endpoint = None, cfg_lfs_endpoint = None, cfg_current_tenant = None,
      cfg_tenants = None, cfg_tenant_repos = None\<rparr>"

subsection \<open>Module constants\<close>


definition BUILD_LFS_ENDPOINT :: string where
  "BUILD_LFS_ENDPOINT = ''''"

text \<open>\<^verbatim>\<open>os.getenv(key, default)\<close>.\<close>

definition getenv :: "environment \<Rightarrow> string \<Rightarrow> string \<Rightarrow> string" where
  "getenv env key dflt = (case environ env key of None \<Rightarrow> dflt | Some v \<Rightarrow> v)"


definition DEFAULT_LFS_ENDPOINT :: "environment \<Rightarrow> string" where
  "DEFAULT_LFS_ENDPOINT env =
     (if BUILD_LFS_ENDPOINT \<noteq> [] then BUILD_LFS_ENDPOINT
      else getenv env ''CANDY_LFS_LFS_ENDPOINT'' '''')"

subsection \<open>The authority of a URL: \<^verbatim>\<open>urlparse(url).netloc\<close>\<close>

text \<open>
  The \<^verbatim>\<open>netloc\<close> component as \<^verbatim>\<open>urllib.parse.urlsplit\<close> of CPython 3.12 computes it
  (\<^verbatim>\<open>urlparse\<close> takes it over unchanged): leading C0 control characters and spaces
  are stripped, tabs and line breaks are removed, a scheme is split off at the first
  colon, and when the rest begins with two slashes the authority runs up to the first
  of \<^verbatim>\<open>/\<close>, \<^verbatim>\<open>?\<close>, \<^verbatim>\<open>#\<close>. The parser raises \<^verbatim>\<open>ValueError\<close> on unbalanced
  square brackets and when one of its two validation helpers refuses the authority.
\<close>

definition WHATWG_C0_CONTROL_OR_SPACE :: "char \<Rightarrow> bool" where
  "WHATWG_C0_CONTROL_OR_SPACE c = ((of_char c :: nat) \<le> 32)"

definition UNSAFE_URL_BYTES_TO_REMOVE :: string where
  "UNSAFE_URL_BYTES_TO_REMOVE = [CHR 0x09, CHR 0x0D, CHR 0x0A]"

definition scheme_chars :: string where
  "scheme_chars = ''abcdefghijklmnopqrstuvwxyzABCDEFGHIJKLMNOPQRSTUVWXYZ0123456789+-.''"

text \<open>\<^verbatim>\<open>c.isascii() and c.isalpha()\<close>.\<close>

definition ascii_alpha :: "char \<Rightarrow> bool" where
  "ascii_alpha c = (c \<in> set ''abcdefghijklmnopqrstuvwxyzABCDEFGHIJKLMNOPQRSTUVWXYZ'')"

definition isascii :: "string \<Rightarrow> bool" where
  "isascii s = list_all (\<lambda>c. (of_char c :: nat) < 128) s"

text \<open>
  The scheme test of \<^verbatim>\<open>urlsplit\<close>: with \<^verbatim>\<open>i = url.find(':')\<close>, the scheme \<^verbatim>\<open>url[:i]\<close>
  is split off when \<^verbatim>\<open>i > 0\<close>, the first character is an ASCII letter and every
  character before the colon is a scheme character. The result is the URL that remains.
\<close>

definition strip_scheme :: "string \<Rightarrow> string" where
  "strip_scheme url =
     (let pre = takeWhile (\<lambda>c. c \<noteq> CHR '':'') url in
      if CHR '':'' \<in> set url \<and> pre \<noteq> [] \<and> ascii_alpha (hd url)
         \<and> list_all (\<lambda>c. c \<in> set scheme_chars) pre
      then drop (length pre + 1) url
      else url)"

text \<open>\<^verbatim>\<open>_splitnetloc(url, start)\<close>: the authority and the rest.\<close>

definition splitnetloc :: "string \<Rightarrow> nat \<Rightarrow> string \<times> string" where
  "splitnetloc url start =
     (let domain = takeWhile (\<lambda>c. c \<notin> set ''/?#'') (drop start url)
      in (domain, drop (start + length domain) url))"

text \<open>\<^verbatim>\<open>netloc.partition('[')[2].partition(']')[0]\<close>.\<close>

definition bracketed_host :: "string \<Rightarrow> string" where
  "bracketed_host netloc =
     takeWhile (\<lambda>c. c \<noteq> CHR '']'') (drop 1 (dropWhile (\<lambda>c. c \<noteq> CHR ''['') netloc))"

definition urlparse_netloc :: "environment \<Rightarrow> string \<Rightarrow> py_error + string" where
  "urlparse_netloc env url0 =
     (let url1 = dropWhile WHATWG_C0_CONTROL_OR_SPACE url0;
          url2 = filter (\<lambda>c. c \<notin> set UNSAFE_URL_BYTES_TO_REMOVE) url1;
          url3 = strip_scheme url2
      in if take 2 url3 = ''//'' then
           (let netloc = fst (splitnetloc url3 2) in
            if (CHR ''['' \<in> set netloc \<and> CHR '']'' \<notin> set netloc)
               \<or> (CHR '']'' \<in> set netloc \<and> CHR ''['' \<notin> set netloc)
            then Inl ValueError
            else if CHR ''['' \<in> set netloc \<and> CHR '']'' \<in> set netloc
                    \<and> \<not> check_bracketed_host env (bracketed_host netloc)
            then Inl ValueError
            else if netloc \<noteq> [] \<and> \<not> isascii netloc \<and> \<not> checknetloc env netloc
            then Inl ValueError
            else Inr netloc)
         else Inr [])"

subsection \<open>The settings store\<close>

text \<open>\<^verbatim>\<open>_save_config\<close>: the whole dictionary is dumped to the file.\<close>

definition save_config :: "environment \<Rightarrow> state \<Rightarrow> state" where
  "save_config env s = s\<lparr>config_file := Some (yaml_dump env (config s))\<rparr>"




definition set_api_endpoint :: "environment \<Rightarrow> string \<Rightarrow> state \<Rightarrow> state" where
  "set_api_endpoint env v s =
     save_config env (s\<lparr>config := (config s)\<lparr>cfg_api_endpoint := Some v\<rparr>\<rparr>)"

definition lfs_endpoint :: "environment \<Rightarrow> state \<Rightarrow> string" where
  "lfs_endpoint env s =
     (case cfg_lfs_endpoint (config s) of None \<Rightarrow> DEFAULT_LFS_ENDPOINT env | Some v \<Rightarrow> v)"

definition set_lfs_endpoint :: "environment \<Rightarrow> string \<Rightarrow> state \<Rightarrow> state" where
  "set_lfs_endpoint env v s =
     save_config env (s\<lparr>config := (config s)\<lparr>cfg_lfs_endpoint := Some v\<rparr>\<rparr>)"


definition set_current_tenant :: "environment \<Rightarrow> string option \<Rightarrow> state \<Rightarrow> state" where
  "set_current_tenant env v s =
     save_config env (s\<lparr>config := (config s)\<lparr>cfg_current_tenant := Some v\<rparr>\<rparr>)"

subsection \<open>The credential identity\<close>

text \<open>
  \<^verbatim>\<open>_get_git_credential_info\<close>. The tests \<^verbatim>\<open>if self.lfs_endpoint\<close> and
  \<^verbatim>\<open>if repo_name\<close> are Python truth tests: an empty string counts as false, like
  \<^verbatim>\<open>None\<close>.
\<close>

definition get_git_credential_info ::
  "environment \<Rightarrow> state \<Rightarrow> string \<Rightarrow> string option \<Rightarrow> py_error + (string \<times> string)" where
  "get_git_credential_info env s tid repo_name =
     (if lfs_endpoint env s \<noteq> [] then
        (case urlparse_netloc env (lfs_endpoint env s) of
           Inl e \<Rightarrow> Inl e
         | Inr netloc \<Rightarrow>
             (let path = (case repo_name of
                            None \<Rightarrow> tid
                          | Some r \<Rightarrow> if r \<noteq> [] then tid @ ''/'' @ r else tid)
              in Inr (netloc, path)))
      else (case repo_name of
              None \<Rightarrow> Inr (''candy-lfs.local'', tid)
            | Some r \<Rightarrow>
                if r \<noteq> [] then Inr (''candy-lfs.local'', tid @ ''/'' @ r)
                else Inr (''candy-lfs.local'', tid)))"

subsection \<open>Calls of the credential helper\<close>

text \<open>
  A call of \<^verbatim>\<open>subprocess.run\<close>: its outcome is the environment's, the invocation is
  appended to the record of calls. A process that cannot be started, a timeout and an
  undecodable output are exceptions of \<^verbatim>\<open>subprocess.run\<close> (\<open>Inl\<close>); an exit code other
  than zero is not, since \<^verbatim>\<open>check\<close> is not set.
\<close>

definition run :: "environment \<Rightarrow> invocation \<Rightarrow> state \<Rightarrow> (py_error + completed_process) \<times> state" where
  "run env call s = (subprocess_run env (calls s) call, s\<lparr>calls := calls s @ [call]\<rparr>)"

text \<open>The three requests of the helper protocol and the two of \<^verbatim>\<open>git config\<close>, as the module formats them.\<close>

definition fill_request :: "string \<Rightarrow> string \<Rightarrow> string \<Rightarrow> invocation" where
  "fill_request host path username =
     \<lparr>args = [''git'', ''credential'', ''fill''],
      input = Some (''protocol=https\<newline>host='' @ host @ ''\<newline>path='' @ path
                    @ ''\<newline>username='' @ username @ ''\<newline>\<newline>'')\<rparr>"

definition approve_request :: "string \<Rightarrow> string \<Rightarrow> string \<Rightarrow> string \<Rightarrow> invocation" where
  "approve_request host path username password =
     \<lparr>args = [''git'', ''credential'', ''approve''],
      input = Some (''protocol=https\<newline>host='' @ host @ ''\<newline>path='' @ path
                    @ ''\<newline>username='' @ username @ ''\<newline>password='' @ password
                    @ ''\<newline>\<newline>'')\<rparr>"

definition reject_request :: "string \<Rightarrow> string \<Rightarrow> string \<Rightarrow> invocation" where
  "reject_request host path username =
     \<lparr>args = [''git'', ''credential'', ''reject''],
      input = Some (''protocol=https\<newline>host='' @ host @ ''\<newline>path='' @ path
                    @ ''\<newline>username='' @ username @ ''\<newline>\<newline>'')\<rparr>"

definition config_get_request :: "string \<Rightarrow> invocation" where
  "config_get_request config_key =
     \<lparr>args = [''git'', ''config'', ''--global'', ''--get'', config_key], input = None\<rparr>"

definition config_set_request :: "string \<Rightarrow> invocation" where
  "config_set_request config_key =
     \<lparr>args = [''git'', ''config'', ''--global'', config_key, ''true''], input = None\<rparr>"

text \<open>\<^verbatim>\<open>str.split\<close> at the line breaks: never empty, the last piece is what follows the last line break.\<close>

fun split_lines :: "string \<Rightarrow> string list" where
  "split_lines [] = [[]]"
| "split_lines (c # cs) =
     (if c = CHR 0x0A then [] # split_lines cs
      else (case split_lines cs of
              [] \<Rightarrow> [[c]]
            | l # ls \<Rightarrow> (c # l) # ls))"

text \<open>
  The loop over the output lines of \<^verbatim>\<open>git credential fill\<close>: the first line that starts
  with \<^verbatim>\<open>password=\<close> gives \<^verbatim>\<open>line.split("=", 1)[1]\<close>, what follows its first equals sign.
\<close>

fun find_password :: "string list \<Rightarrow> string option" where
  "find_password [] = None"
| "find_password (line # rest) =
     (if take 9 line = ''password=''
      then Some (drop 1 (dropWhile (\<lambda>c. c \<noteq> CHR ''='') line))
      else find_password rest)"

text \<open>
  \<^verbatim>\<open>_git_credential_get\<close>, \<^verbatim>\<open>_git_credential_store\<close>, \<^verbatim>\<open>_git_credential_erase\<close>: the
  body is inside \<^verbatim>\<open>try ... except Exception: pass\<close>, so an exception of the call ends
  in the value after the handler.
\<close>

definition git_credential_get ::
  "environment \<Rightarrow> string \<Rightarrow> string \<Rightarrow> string \<Rightarrow> state \<Rightarrow> string option \<times> state" where
  "git_credential_get env host path username s =
     (case run env (fill_request host path username) s of
        (Inl e, s1) \<Rightarrow> (None, s1)
      | (Inr result, s1) \<Rightarrow>
          (if returncode result = 0 then find_password (split_lines (stdout result)) else None,
           s1))"

definition git_credential_store ::
  "environment \<Rightarrow> string \<Rightarrow> string \<Rightarrow> string \<Rightarrow> string \<Rightarrow> state \<Rightarrow> state" where
  "git_credential_store env host path username password s =
     snd (run env (approve_request host path username password) s)"

definition git_credential_erase ::
  "environment \<Rightarrow> string \<Rightarrow> string \<Rightarrow> string \<Rightarrow> state \<Rightarrow> state" where
  "git_credential_erase env host path username s =
     snd (run env (reject_request host path username) s)"

text \<open>\<^verbatim>\<open>str.strip()\<close>: white space is removed at both ends.\<close>

definition isspace :: "char \<Rightarrow> bool" where
  "isspace c = ((of_char c :: nat) \<in> {9, 10, 11, 12, 13, 28, 29, 30, 31, 32, 133, 160})"

definition strip :: "string \<Rightarrow> string" where
  "strip t = rev (dropWhile isspace (rev (dropWhile isspace t)))"

text \<open>
  \<^verbatim>\<open>_ensure_use_http_path\<close>: one \<^verbatim>\<open>try\<close> block holds the read and the write, so an
  exception of the read skips the write.
\<close>

definition ensure_use_http_path :: "environment \<Rightarrow> string \<Rightarrow> state \<Rightarrow> state" where
  "ensure_use_http_path env host s =
     (let config_key = ''credential.https://'' @ host @ ''.useHttpPath'' in
      case run env (config_get_request config_key) s of
        (Inl e, s1) \<Rightarrow> s1
      | (Inr result, s1) \<Rightarrow>
          if returncode result \<noteq> 0 \<or> strip (stdout result) \<noteq> ''true''
          then snd (run env (config_set_request config_key) s1)
          else s1)"

subsection \<open>Tokens\<close>

definition get_github_token ::
  "environment \<Rightarrow> string \<Rightarrow> string option \<Rightarrow> state \<Rightarrow> (py_error + string option) \<times> state" where
  "get_github_token env tid repo_name s =
     (case get_git_credential_info env s tid repo_name of
        Inl e \<Rightarrow> (Inl e, s)
      | Inr (host, path) \<Rightarrow>
          (case git_credential_get env host path tid s of (r, s1) \<Rightarrow> (Inr r, s1)))"

definition set_github_token ::
  "environment \<Rightarrow> string \<Rightarrow> string \<Rightarrow> string option \<Rightarrow> state \<Rightarrow> (py_error + unit) \<times> state" where
  "set_github_token env tid token repo_name s =
     (case get_git_credential_info env s tid repo_name of
        Inl e \<Rightarrow> (Inl e, s)
      | Inr (host, path) \<Rightarrow>
          (Inr (), git_credential_store env host path tid token (ensure_use_http_path env host s)))"

definition delete_github_token ::
  "environment \<Rightarrow> string \<Rightarrow> string option \<Rightarrow> state \<Rightarrow> (py_error + unit) \<times> state" where
  "delete_github_token env tid repo_name s =
     (case get_git_credential_info env s tid repo_name of
        Inl e \<Rightarrow> (Inl e, s)
      | Inr (host, path) \<Rightarrow> (Inr (), git_credential_erase env host path tid s))"

subsection \<open>Repository lists and tenants\<close>

definition get_tenant_repos :: "string \<Rightarrow> state \<Rightarrow> string list" where
  "get_tenant_repos tid s =
     (case cfg_tenant_repos (config s) of
        None \<Rightarrow> []
      | Some tenant_repos \<Rightarrow> (case tenant_repos tid of None \<Rightarrow> [] | Some names \<Rightarrow> names))"

definition set_tenant_repos :: "environment \<Rightarrow> string \<Rightarrow> string list \<Rightarrow> state \<Rightarrow> state" where
  "set_tenant_repos env tid repo_names s =
     (let tenant_repos = (case cfg_tenant_repos (config s) of None \<Rightarrow> Map.empty | Some m \<Rightarrow> m)
      in save_config env
           (s\<lparr>config := (config s)\<lparr>cfg_tenant_repos := Some (tenant_repos(tid \<mapsto> repo_names))\<rparr>\<rparr>))"

text \<open>\<^verbatim>\<open>_clear_tenant_repos\<close>: nothing is written when the tenant has no entry.\<close>

definition clear_tenant_repos :: "environment \<Rightarrow> string \<Rightarrow> state \<Rightarrow> state" where
  "clear_tenant_repos env tid s =
     (let tenant_repos = (case cfg_tenant_repos (config s) of None \<Rightarrow> Map.empty | Some m \<Rightarrow> m)
      in if tenant_repos tid \<noteq> None
         then save_config env
                (s\<lparr>config := (config s)\<lparr>cfg_tenant_repos := Some (tenant_repos(tid := None))\<rparr>\<rparr>)
         else s)"

text \<open>
  The loop of \<^verbatim>\<open>delete_all_tenant_credentials\<close>: an exception of one
  \<^verbatim>\<open>delete_github_token\<close> ends it.
\<close>

fun delete_each :: "environment \<Rightarrow> string \<Rightarrow> string list \<Rightarrow> state \<Rightarrow> (py_error + unit) \<times> state" where
  "delete_each env tid [] s = (Inr (), s)"
| "delete_each env tid (repo_name # rest) s =
     (case delete_github_token env tid (Some repo_name) s of
        (Inl e, s1) \<Rightarrow> (Inl e, s1)
      | (Inr u, s1) \<Rightarrow> delete_each env tid rest s1)"

definition delete_all_tenant_credentials ::
  "environment \<Rightarrow> string \<Rightarrow> state \<Rightarrow> (py_error + unit) \<times> state" where
  "delete_all_tenant_credentials env tid s =
     (case delete_each env tid (get_tenant_repos tid s) s of
        (Inl e, s1) \<Rightarrow> (Inl e, s1)
      | (Inr u, s1) \<Rightarrow> (Inr (), clear_tenant_repos env tid s1))"

definition get_tenant_list :: "state \<Rightarrow> tenant list" where
  "get_tenant_list s = (case cfg_tenants (config s) of None \<Rightarrow> [] | Some ts \<Rightarrow> ts)"

text \<open>
  The \<^verbatim>\<open>for ... else\<close> of \<^verbatim>\<open>add_tenant\<close>: the first entry with the identifier gets
  the new name and the loop stops; when the loop runs to its end the new entry is
  appended.
\<close>

fun add_tenant_loop :: "string \<Rightarrow> string \<Rightarrow> tenant list \<Rightarrow> tenant list" where
  "add_tenant_loop tid nm [] = [\<lparr>tenant_id = tid, name = nm\<rparr>]"
| "add_tenant_loop tid nm (t # ts) =
     (if tenant_id t = tid then t\<lparr>name := nm\<rparr> # ts
      else t # add_tenant_loop tid nm ts)"

definition add_tenant :: "environment \<Rightarrow> string \<Rightarrow> string \<Rightarrow> state \<Rightarrow> state" where
  "add_tenant env tid nm s =
     save_config env
       (s\<lparr>config := (config s)\<lparr>cfg_tenants := Some (add_tenant_loop tid nm (get_tenant_list s))\<rparr>\<rparr>)"


subsection \<open>Predicates and fixtures for the statements\<close>

text \<open>
  A URL of the usual shape is \<open>scheme @ ''://'' @ authority @ rest\<close>: the scheme is what
  \<^verbatim>\<open>urlsplit\<close> accepts as one; the authority is ASCII without a delimiter, a square
  bracket, a tab or a line break; the rest is empty or starts with a delimiter.
\<close>

definition plain_authority :: "string \<Rightarrow> bool" where
  "plain_authority a =
     list_all (\<lambda>c. c \<notin> set ''/?#[]'' \<and> c \<notin> set UNSAFE_URL_BYTES_TO_REMOVE \<and> (of_char c :: nat) < 128) a"

definition valid_scheme :: "string \<Rightarrow> bool" where
  "valid_scheme sch = (sch \<noteq> [] \<and> ascii_alpha (hd sch) \<and> list_all (\<lambda>c. c \<in> set scheme_chars) sch)"

text \<open>
  Concrete environments and states for instances of the theorems: the process
  environment and the behaviour of the subprocesses are given, the two URL validation
  helpers accept, the YAML codec is trivial.
\<close>

definition example_env ::
  "(string \<rightharpoonup> string) \<Rightarrow> (invocation list \<Rightarrow> invocation \<Rightarrow> py_error + completed_process) \<Rightarrow> environment" where
  "example_env vars proc =
     \<lparr>environ = vars, check_bracketed_host = (\<lambda>h. True), checknetloc = (\<lambda>n. True),
      subprocess_run = proc, yaml_dump = (\<lambda>d. []), yaml_safe_load = (\<lambda>t. Inr None)\<rparr>"

definition example_state :: "string option \<Rightarrow> state" where
  "example_state endpoint =
     \<lparr>config = empty_settings\<lparr>cfg_lfs_endpoint := endpoint\<rparr>, config_file = None, calls = []\<rparr>"

text \<open>No \<^verbatim>\<open>git\<close> executable: every call fails to start.\<close>

definition unavailable :: "invocation list \<Rightarrow> invocation \<Rightarrow> py_error + completed_process" where
  "unavailable history call = Inl OSError"

text \<open>Every call runs into the timeout.\<close>

definition timing_out :: "invocation list \<Rightarrow> invocation \<Rightarrow> py_error + completed_process" where
  "timing_out history call = Inl TimeoutExpired"

text \<open>Every call completes with the same exit code and output.\<close>

definition answering ::
  "int \<Rightarrow> string \<Rightarrow> invocation list \<Rightarrow> invocation \<Rightarrow> py_error + completed_process" where
  "answering code out history call = Inr \<lparr>returncode = code, stdout = out\<rparr>"

text \<open>
  A retrieval that failed: the call raised (the process did not start, ran into the
  timeout, printed undecodable bytes), exited with a code other than zero, or printed no
  line that starts with \<^verbatim>\<open>password=\<close>.
\<close>

definition helper_failed :: "py_error + completed_process \<Rightarrow> bool" where
  "helper_failed outcome =
     (case outcome of
        Inl e \<Rightarrow> True
      | Inr result \<Rightarrow>
          returncode result \<noteq> 0
          \<or> \<not> list_ex (\<lambda>line. take 9 line = ''password='') (split_lines (stdout result)))"




section \<open>Properties\<close>

subsection \<open>The authority of a well-formed URL\<close>

lemma ascii_alpha_not_c0: "ascii_alpha c \<Longrightarrow> \<not> WHATWG_C0_CONTROL_OR_SPACE c"
  by (auto simp: ascii_alpha_def WHATWG_C0_CONTROL_OR_SPACE_def)

lemma scheme_char_safe:
  "c \<in> set scheme_chars \<Longrightarrow> c \<notin> set UNSAFE_URL_BYTES_TO_REMOVE \<and> c \<noteq> CHR '':''"
  by (auto simp: scheme_chars_def UNSAFE_URL_BYTES_TO_REMOVE_def)

lemma filter_safe_id: "list_all (\<lambda>c. c \<notin> set UNSAFE_URL_BYTES_TO_REMOVE) xs \<Longrightarrow> filter (\<lambda>c. c \<notin> set UNSAFE_URL_BYTES_TO_REMOVE) xs = xs"
  by (induction xs) auto

lemma strip_scheme_valid:
  assumes "valid_scheme sch"
  shows "strip_scheme (sch @ CHR '':'' # rest) = rest"
proof -
  have nc: "\<forall>c\<in>set sch. c \<noteq> CHR '':''"
    using assms scheme_char_safe by (auto simp: valid_scheme_def list_all_iff)
  then have tw: "takeWhile (\<lambda>c. c \<noteq> CHR '':'') (sch @ CHR '':'' # rest) = sch"
    by (simp add: takeWhile_append2)
  have hd: "hd (sch @ CHR '':'' # rest) = hd sch" using assms by (simp add: valid_scheme_def)
  show ?thesis
    unfolding strip_scheme_def Let_def tw hd using assms by (simp add: valid_scheme_def)
qed

lemma urlparse_netloc_authority:
  assumes sch: "valid_scheme sch" and auth: "plain_authority a"
    and rest: "rest = [] \<or> hd rest \<in> set ''/?#''"
  shows "urlparse_netloc env (sch @ ''://'' @ a @ rest) = Inr a"
proof -
  let ?unsafe = "\<lambda>c. c \<notin> set UNSAFE_URL_BYTES_TO_REMOVE"
  let ?url = "sch @ ''://'' @ a @ rest"
  obtain c cs where sc: "sch = c # cs" and alpha: "ascii_alpha c"
    using sch by (cases sch) (auto simp: valid_scheme_def)
  have l: "dropWhile WHATWG_C0_CONTROL_OR_SPACE ?url = ?url"
    using ascii_alpha_not_c0 [OF alpha] by (simp add: sc)
  have fs: "filter ?unsafe sch = sch"
    using sch scheme_char_safe by (intro filter_safe_id) (auto simp: valid_scheme_def list_all_iff)
  have fa: "filter ?unsafe a = a"
    using auth by (intro filter_safe_id) (auto simp: plain_authority_def list_all_iff)
  have f: "filter ?unsafe ?url = sch @ CHR '':'' # (''//'' @ a @ filter ?unsafe rest)"
  proof -
    have fc: "filter ?unsafe ''://'' = ''://''"
      by (simp add: UNSAFE_URL_BYTES_TO_REMOVE_def)
    have "filter ?unsafe ?url = sch @ ''://'' @ a @ filter ?unsafe rest"
      unfolding filter_append fs fa fc by (rule refl)
    then show ?thesis by simp
  qed
  have r: "filter ?unsafe rest = [] \<or> hd (filter ?unsafe rest) \<in> set ''/?#''"
    using rest by (cases rest) (auto simp: UNSAFE_URL_BYTES_TO_REMOVE_def)
  have nd: "\<forall>c\<in>set a. c \<notin> set ''/?#''"
    using auth by (auto simp: plain_authority_def list_all_iff)
  have tw: "takeWhile (\<lambda>c. c \<notin> set ''/?#'') (a @ filter ?unsafe rest) = a"
  proof (cases "filter ?unsafe rest")
    case Nil
    then show ?thesis using nd by (simp add: takeWhile_eq_all_conv)
  next
    case (Cons d ds)
    then have "d \<in> set ''/?#''" using r by simp
    then show ?thesis using nd Cons by (simp add: takeWhile_append2 del: set_simps)
  qed
  have nb: "CHR ''['' \<notin> set a" "CHR '']'' \<notin> set a"
    using auth by (auto simp: plain_authority_def list_all_iff)
  have asc: "isascii a"
    using auth by (auto simp: plain_authority_def isascii_def list_all_iff)
  have sn: "fst (splitnetloc (''//'' @ a @ filter ?unsafe rest) 2) = a"
    unfolding splitnetloc_def Let_def fst_conv
    by (simp only: append_Cons append_Nil drop_Suc_Cons drop_0 numeral_2_eq_2 tw)
  show ?thesis
    unfolding urlparse_netloc_def Let_def l f strip_scheme_valid [OF sch] sn
    by (simp add: nb asc)
qed

lemmas example_defs = example_env_def example_state_def empty_settings_def lfs_endpoint_def
  DEFAULT_LFS_ENDPOINT_def BUILD_LFS_ENDPOINT_def getenv_def

lemmas urlparse_defs = urlparse_netloc_def WHATWG_C0_CONTROL_OR_SPACE_def
  UNSAFE_URL_BYTES_TO_REMOVE_def strip_scheme_def scheme_chars_def ascii_alpha_def
  splitnetloc_def isascii_def bracketed_host_def

subsection \<open>The credential identity\<close>

text \<open>
  C1 (as amended). With \<open>path\<close> the tenant identifier alone when no repository name is
  given or the name is empty, and \<^verbatim>\<open>tenant_id/repo_name\<close> when the name is a non-empty
  string: if no LFS endpoint is configured (the stored value, or the build and
  environment default when none is stored, is empty) the identity is
  \<^verbatim>\<open>candy-lfs.local\<close> with \<open>path\<close>; otherwise the host is the \<^verbatim>\<open>netloc\<close> the URL parser
  returns for the endpoint, and a \<^verbatim>\<open>ValueError\<close> of the parser propagates. For an endpoint
  \<open>scheme://authority\<close> followed by nothing or by a path, query or fragment, the host is the
  whole authority: scheme and path are stripped, a port (and user information) stays.
\<close>

theorem identity_derivation:
  "(let path = (case repo_name of None \<Rightarrow> tid | Some r \<Rightarrow> if r = [] then tid else tid @ ''/'' @ r) in
     get_git_credential_info env s tid repo_name =
       (if lfs_endpoint env s = [] then Inr (''candy-lfs.local'', path)
        else (case urlparse_netloc env (lfs_endpoint env s) of
                Inl e \<Rightarrow> Inl e
              | Inr netloc \<Rightarrow> Inr (netloc, path)))
     \<and> (valid_scheme sch \<and> plain_authority a \<and> (rest = [] \<or> hd rest \<in> set ''/?#'')
          \<and> lfs_endpoint env s = sch @ ''://'' @ a @ rest
        \<longrightarrow> get_git_credential_info env s tid repo_name = Inr (a, path)))"
proof -
  let ?path = "case repo_name of None \<Rightarrow> tid | Some r \<Rightarrow> if r = [] then tid else tid @ ''/'' @ r"
  have general: "get_git_credential_info env s tid repo_name =
       (if lfs_endpoint env s = [] then Inr (''candy-lfs.local'', ?path)
        else (case urlparse_netloc env (lfs_endpoint env s) of
                Inl e \<Rightarrow> Inl e
              | Inr netloc \<Rightarrow> Inr (netloc, ?path)))"
    by (simp add: get_git_credential_info_def split: option.splits sum.splits)
  have "get_git_credential_info env s tid repo_name = Inr (a, ?path)"
    if sch: "valid_scheme sch" and a: "plain_authority a"
      and rest: "rest = [] \<or> hd rest \<in> set ''/?#''"
      and ep: "lfs_endpoint env s = sch @ ''://'' @ a @ rest"
  proof -
    have "urlparse_netloc env (lfs_endpoint env s) = Inr a"
      unfolding ep by (rule urlparse_netloc_authority [OF sch a rest])
    moreover have "lfs_endpoint env s \<noteq> []"
      unfolding ep by simp
    ultimately show ?thesis
      unfolding general by simp
  qed
  with general show ?thesis
    unfolding Let_def by blast
qed

text \<open>An endpoint with a port and a repository; no endpoint and no repository.\<close>

theorem identity_derivation_witness:
  "valid_scheme ''https'' \<and> plain_authority ''lfs.example.com:8443''
   \<and> lfs_endpoint (example_env Map.empty unavailable)
         (example_state (Some ''https://lfs.example.com:8443/api''))
       = ''https'' @ ''://'' @ ''lfs.example.com:8443'' @ ''/api''
   \<and> get_git_credential_info (example_env Map.empty unavailable)
         (example_state (Some ''https://lfs.example.com:8443/api'')) ''t1'' (Some ''r1'')
       = Inr (''lfs.example.com:8443'', ''t1/r1'')
   \<and> get_git_credential_info (example_env Map.empty unavailable)
         (example_state None) ''t1'' None
       = Inr (''candy-lfs.local'', ''t1'')"
  using identity_derivation [where repo_name = "Some ''r1''" and tid = "''t1''"
      and env = "example_env Map.empty unavailable"
      and s = "example_state (Some ''https://lfs.example.com:8443/api'')"
      and sch = "''https''" and a = "''lfs.example.com:8443''" and rest = "''/api''"]
    identity_derivation [where repo_name = None and tid = "''t1''"
      and env = "example_env Map.empty unavailable" and s = "example_state None"
      and sch = "[]" and a = "[]" and rest = "[]"]
  by (simp add: valid_scheme_def plain_authority_def example_defs urlparse_defs)

text \<open>
  C1 as stated fails: the port of the endpoint stays in the host, and an empty
  repository name gives the path of the tenant alone.
\<close>

theorem identity_derivation_counterexample:
  "get_git_credential_info (example_env Map.empty unavailable)
       (example_state (Some ''https://lfs.example.com:8443/api'')) ''t1'' None
     = Inr (''lfs.example.com:8443'', ''t1'')
   \<and> get_git_credential_info (example_env Map.empty unavailable)
       (example_state (Some ''https://lfs.example.com:8443/api'')) ''t1'' None
     \<noteq> Inr (''lfs.example.com'', ''t1'')
   \<and> get_git_credential_info (example_env Map.empty unavailable)
       (example_state None) ''t1'' (Some [])
     = Inr (''candy-lfs.local'', ''t1'')
   \<and> get_git_credential_info (example_env Map.empty unavailable)
       (example_state None) ''t1'' (Some [])
     \<noteq> Inr (''candy-lfs.local'', ''t1/'')"
  by (simp add: get_git_credential_info_def example_defs urlparse_defs)

text \<open>
  C10. An \<^verbatim>\<open>lfs_endpoint\<close> stored as the empty string and an endpoint configured nowhere
  (no stored value, empty build and environment default) give the same identity: the
  host \<^verbatim>\<open>candy-lfs.local\<close> with the usual path. The stored empty string wins over a
  non-empty environment default.
\<close>

theorem empty_endpoint_falls_back:
  "cfg_lfs_endpoint (config s) = Some []
     \<or> (cfg_lfs_endpoint (config s) = None \<and> DEFAULT_LFS_ENDPOINT env = [])
   \<Longrightarrow> lfs_endpoint env s = []
       \<and> get_git_credential_info env s tid repo_name =
           Inr (''candy-lfs.local'',
                case repo_name of None \<Rightarrow> tid | Some r \<Rightarrow> if r = [] then tid else tid @ ''/'' @ r)"
  by (auto simp: get_git_credential_info_def lfs_endpoint_def split: option.splits)

text \<open>
  With the environment variable set, the stored empty string still gives the
  placeholder; without a stored value the variable's host is used.
\<close>

theorem empty_endpoint_falls_back_witness:
  "cfg_lfs_endpoint (config (example_state (Some []))) = Some []
   \<and> DEFAULT_LFS_ENDPOINT
        (example_env [''CANDY_LFS_LFS_ENDPOINT'' \<mapsto> ''https://lfs.example.com''] unavailable)
       = ''https://lfs.example.com''
   \<and> get_git_credential_info
        (example_env [''CANDY_LFS_LFS_ENDPOINT'' \<mapsto> ''https://lfs.example.com''] unavailable)
        (example_state (Some [])) ''t1'' (Some ''r1'')
       = Inr (''candy-lfs.local'', ''t1/r1'')
   \<and> get_git_credential_info
        (example_env [''CANDY_LFS_LFS_ENDPOINT'' \<mapsto> ''https://lfs.example.com''] unavailable)
        (example_state None) ''t1'' (Some ''r1'')
       = Inr (''lfs.example.com'', ''t1/r1'')"
  using empty_endpoint_falls_back [where s = "example_state (Some [])"
      and env = "example_env [''CANDY_LFS_LFS_ENDPOINT'' \<mapsto> ''https://lfs.example.com''] unavailable"
      and tid = "''t1''" and repo_name = "Some ''r1''"]
  by (simp add: get_git_credential_info_def example_defs urlparse_defs)

subsection \<open>Calls of the credential helper\<close>

lemma fst_run: "fst (run env call s) = subprocess_run env (calls s) call"
  by (simp add: run_def)

lemma snd_run: "snd (run env call s) = s\<lparr>calls := calls s @ [call]\<rparr>"
  by (simp add: run_def)

lemma find_password_None:
  "find_password ls = None \<longleftrightarrow> \<not> list_ex (\<lambda>line. take 9 line = ''password='') ls"
  by (induction ls) auto

lemma git_credential_get_state:
  "snd (git_credential_get env host path username s) =
     s\<lparr>calls := calls s @ [fill_request host path username]\<rparr>"
  by (simp add: git_credential_get_def run_def split: sum.splits)

lemma git_credential_get_None:
  "fst (git_credential_get env host path username s) = None \<longleftrightarrow>
     helper_failed (subprocess_run env (calls s) (fill_request host path username))"
  by (auto simp: git_credential_get_def run_def helper_failed_def find_password_None
      split: sum.splits)

lemma git_credential_store_state:
  "git_credential_store env host path username password s =
     s\<lparr>calls := calls s @ [approve_request host path username password]\<rparr>"
  by (simp add: git_credential_store_def snd_run)

lemma git_credential_erase_state:
  "git_credential_erase env host path username s =
     s\<lparr>calls := calls s @ [reject_request host path username]\<rparr>"
  by (simp add: git_credential_erase_def snd_run)

lemma ensure_use_http_path_state:
  "ensure_use_http_path env host s =
     s\<lparr>calls := calls s @ config_get_request (''credential.https://'' @ host @ ''.useHttpPath'') #
        (case subprocess_run env (calls s)
                (config_get_request (''credential.https://'' @ host @ ''.useHttpPath'')) of
           Inl e \<Rightarrow> []
         | Inr result \<Rightarrow>
             if returncode result = 0 \<and> strip (stdout result) = ''true'' then []
             else [config_set_request (''credential.https://'' @ host @ ''.useHttpPath'')])\<rparr>"
  by (simp add: ensure_use_http_path_def run_def Let_def split: sum.splits)

lemma get_github_token_Inr:
  "get_git_credential_info env s tid repo_name = Inr (host, path) \<Longrightarrow>
     get_github_token env tid repo_name s =
       (Inr (fst (git_credential_get env host path tid s)),
        s\<lparr>calls := calls s @ [fill_request host path tid]\<rparr>)"
  using git_credential_get_state [of env host path tid s]
  by (cases "git_credential_get env host path tid s") (simp add: get_github_token_def)

lemma set_github_token_Inr:
  "get_git_credential_info env s tid repo_name = Inr (host, path) \<Longrightarrow>
     set_github_token env tid token repo_name s =
       (Inr (), (ensure_use_http_path env host s)
                  \<lparr>calls := calls (ensure_use_http_path env host s)
                             @ [approve_request host path tid token]\<rparr>)"
  by (simp add: set_github_token_def git_credential_store_state)

lemma delete_github_token_Inr:
  "get_git_credential_info env s tid repo_name = Inr (host, path) \<Longrightarrow>
     delete_github_token env tid repo_name s =
       (Inr (), s\<lparr>calls := calls s @ [reject_request host path tid]\<rparr>)"
  by (simp add: delete_github_token_def git_credential_erase_state)

lemma token_ops_Inl:
  "get_git_credential_info env s tid repo_name = Inl e \<Longrightarrow>
     get_github_token env tid repo_name s = (Inl e, s)
     \<and> set_github_token env tid token repo_name s = (Inl e, s)
     \<and> delete_github_token env tid repo_name s = (Inl e, s)"
  by (simp add: get_github_token_def set_github_token_def delete_github_token_def)



text \<open>
  C3. An exception that leaves \<^verbatim>\<open>get_github_token\<close>, \<^verbatim>\<open>set_github_token\<close> or
  \<^verbatim>\<open>delete_github_token\<close> is the identity derivation's, raised before any helper call: no
  outcome of a helper call raises. Once the identity is derived, retrieve returns \<open>None\<close>
  exactly when the helper call failed, and store and erase return normally and leave the
  settings and the file as they were, for every behaviour of the helper.
\<close>

theorem helper_failures_are_swallowed:
  "(fst (get_github_token env tid repo_name s) = Inl e
      \<longrightarrow> get_git_credential_info env s tid repo_name = Inl e)
   \<and> (fst (set_github_token env tid token repo_name s) = Inl e
      \<longrightarrow> get_git_credential_info env s tid repo_name = Inl e)
   \<and> (fst (delete_github_token env tid repo_name s) = Inl e
      \<longrightarrow> get_git_credential_info env s tid repo_name = Inl e)
   \<and> (get_git_credential_info env s tid repo_name = Inr (host, path) \<longrightarrow>
        (helper_failed (subprocess_run env (calls s) (fill_request host path tid))
           \<longleftrightarrow> fst (get_github_token env tid repo_name s) = Inr None)
        \<and> fst (set_github_token env tid token repo_name s) = Inr ()
        \<and> config (snd (set_github_token env tid token repo_name s)) = config s
        \<and> config_file (snd (set_github_token env tid token repo_name s)) = config_file s
        \<and> fst (delete_github_token env tid repo_name s) = Inr ()
        \<and> config (snd (delete_github_token env tid repo_name s)) = config s
        \<and> config_file (snd (delete_github_token env tid repo_name s)) = config_file s)"
proof (cases "get_git_credential_info env s tid repo_name")
  case (Inl e')
  then show ?thesis
    using token_ops_Inl [OF Inl] by simp
next
  case (Inr hp)
  obtain h p where hp: "hp = (h, p)" by (cases hp)
  note id = Inr [unfolded hp]
  show ?thesis
    unfolding get_github_token_Inr [OF id] set_github_token_Inr [OF id]
      delete_github_token_Inr [OF id] id
    by (auto simp: git_credential_get_None ensure_use_http_path_state)
qed

text \<open>
  Every call times out: retrieve gives \<open>None\<close>, store and erase return. With an endpoint
  the URL parser refuses, the exception is the parser's.
\<close>

theorem helper_failures_are_swallowed_witness:
  "get_git_credential_info (example_env Map.empty timing_out) (example_state None) ''t1'' None
     = Inr (''candy-lfs.local'', ''t1'')
   \<and> helper_failed (subprocess_run (example_env Map.empty timing_out)
        (calls (example_state None)) (fill_request ''candy-lfs.local'' ''t1'' ''t1''))
   \<and> fst (get_github_token (example_env Map.empty timing_out) ''t1'' None (example_state None))
     = Inr None
   \<and> fst (set_github_token (example_env Map.empty timing_out) ''t1'' ''secret'' None
        (example_state None)) = Inr ()
   \<and> fst (delete_github_token (example_env Map.empty timing_out) ''t1'' None
        (example_state None)) = Inr ()
   \<and> fst (get_github_token (example_env Map.empty timing_out) ''t1'' None
        (example_state (Some ''https://[::1''))) = Inl ValueError
   \<and> get_git_credential_info (example_env Map.empty timing_out)
        (example_state (Some ''https://[::1'')) ''t1'' None = Inl ValueError"
  using helper_failures_are_swallowed [where env = "example_env Map.empty timing_out"
      and s = "example_state None" and tid = "''t1''" and repo_name = None
      and host = "''candy-lfs.local''" and path = "''t1''" and token = "''secret''"
      and e = ValueError]
    helper_failures_are_swallowed [where env = "example_env Map.empty timing_out"
      and s = "example_state (Some ''https://[::1'')" and tid = "''t1''" and repo_name = None
      and host = "''candy-lfs.local''" and path = "''t1''" and token = "''secret''"
      and e = ValueError]
  by (simp add: get_git_credential_info_def get_github_token_def example_defs urlparse_defs
      helper_failed_def timing_out_def)

text \<open>
  C9 (as amended). The path-scoping step reads the global key
  \<^verbatim>\<open>credential.https://<host>.useHttpPath\<close> and then writes \<^verbatim>\<open>true\<close> to it exactly when
  the read completed and either exited with a code other than zero or printed something
  that is not \<^verbatim>\<open>true\<close> after stripping white space; when the read raised, nothing is
  written. The step touches neither the settings nor the file, and \<^verbatim>\<open>set_github_token\<close>
  runs it before its approve request.
\<close>

theorem path_scoping_check_then_set:
  "calls (ensure_use_http_path env host s) =
     calls s @ config_get_request (''credential.https://'' @ host @ ''.useHttpPath'') #
       (case subprocess_run env (calls s)
               (config_get_request (''credential.https://'' @ host @ ''.useHttpPath'')) of
          Inl e \<Rightarrow> []
        | Inr result \<Rightarrow>
            if returncode result = 0 \<and> strip (stdout result) = ''true'' then []
            else [config_set_request (''credential.https://'' @ host @ ''.useHttpPath'')])
   \<and> config (ensure_use_http_path env host s) = config s
   \<and> config_file (ensure_use_http_path env host s) = config_file s
   \<and> (get_git_credential_info env s tid repo_name = Inr (host, path) \<longrightarrow>
        calls (snd (set_github_token env tid token repo_name s)) =
          calls (ensure_use_http_path env host s) @ [approve_request host path tid token])"
  by (simp add: ensure_use_http_path_state set_github_token_Inr)

text \<open>
  The key is unset (exit code 1): read, write, approve. The key is \<^verbatim>\<open>true\<close>: read, approve.
\<close>

theorem path_scoping_check_then_set_witness:
  "get_git_credential_info (example_env Map.empty (answering 1 []))
       (example_state (Some ''https://lfs.example.com/api'')) ''t1'' None
     = Inr (''lfs.example.com'', ''t1'')
   \<and> calls (snd (set_github_token (example_env Map.empty (answering 1 [])) ''t1'' ''secret''
         None (example_state (Some ''https://lfs.example.com/api''))))
     = [config_get_request ''credential.https://lfs.example.com.useHttpPath'',
        config_set_request ''credential.https://lfs.example.com.useHttpPath'',
        approve_request ''lfs.example.com'' ''t1'' ''t1'' ''secret'']
   \<and> calls (snd (set_github_token (example_env Map.empty (answering 0 ''true\<newline>''))
         ''t1'' ''secret'' None (example_state (Some ''https://lfs.example.com/api''))))
     = [config_get_request ''credential.https://lfs.example.com.useHttpPath'',
        approve_request ''lfs.example.com'' ''t1'' ''t1'' ''secret'']"
  using path_scoping_check_then_set [where env = "example_env Map.empty (answering 1 [])"
      and s = "example_state (Some ''https://lfs.example.com/api'')" and tid = "''t1''"
      and repo_name = None and host = "''lfs.example.com''" and path = "''t1''"
      and token = "''secret''"]
    path_scoping_check_then_set [where env = "example_env Map.empty (answering 0 ''true\<newline>'')"
      and s = "example_state (Some ''https://lfs.example.com/api'')" and tid = "''t1''"
      and repo_name = None and host = "''lfs.example.com''" and path = "''t1''"
      and token = "''secret''"]
  by (simp add: get_git_credential_info_def example_defs urlparse_defs answering_def
      strip_def isspace_def)

text \<open>
  C9 as stated fails: a read that runs into the timeout did not return \<^verbatim>\<open>true\<close>, and
  no write follows.
\<close>

theorem path_scoping_check_then_set_counterexample:
  "subprocess_run (example_env Map.empty timing_out) (calls (example_state None))
       (config_get_request ''credential.https://lfs.example.com.useHttpPath'')
     = Inl TimeoutExpired
   \<and> calls (ensure_use_http_path (example_env Map.empty timing_out) ''lfs.example.com''
        (example_state None))
     = [config_get_request ''credential.https://lfs.example.com.useHttpPath'']
   \<and> config_set_request ''credential.https://lfs.example.com.useHttpPath''
       \<notin> set (calls (ensure_use_http_path (example_env Map.empty timing_out)
                        ''lfs.example.com'' (example_state None)))"
  by (simp add: ensure_use_http_path_state example_defs timing_out_def
      config_get_request_def config_set_request_def)

subsection \<open>Repository lists and tenants\<close>

lemma credential_info_cong:
  "cfg_lfs_endpoint (config s') = cfg_lfs_endpoint (config s) \<Longrightarrow>
     get_git_credential_info env s' tid repo_name = get_git_credential_info env s tid repo_name"
  by (simp add: get_git_credential_info_def lfs_endpoint_def)

lemma credential_info_repo:
  assumes "get_git_credential_info env s tid None = Inr (host, bare)"
  shows "bare = tid"
    and "get_git_credential_info env s tid (Some r) =
           Inr (host, if r = [] then tid else tid @ ''/'' @ r)"
proof -
  show "bare = tid"
    using assms
    by (cases "lfs_endpoint env s = []"; cases "urlparse_netloc env (lfs_endpoint env s)")
      (simp_all add: get_git_credential_info_def)
  show "get_git_credential_info env s tid (Some r) =
           Inr (host, if r = [] then tid else tid @ ''/'' @ r)"
    using assms
    by (cases "lfs_endpoint env s = []"; cases "urlparse_netloc env (lfs_endpoint env s)")
      (simp_all add: get_git_credential_info_def)
qed

lemma delete_each_calls:
  assumes "get_git_credential_info env s tid None = Inr (host, bare)"
  shows "delete_each env tid rs s =
           (Inr (), s\<lparr>calls := calls s @
              map (\<lambda>r. reject_request host (if r = [] then tid else tid @ ''/'' @ r) tid) rs\<rparr>)"
  using assms
proof (induction rs arbitrary: s)
  case Nil
  then show ?case by simp
next
  case (Cons r rs)
  let ?s1 = "s\<lparr>calls := calls s @
      [reject_request host (if r = [] then tid else tid @ ''/'' @ r) tid]\<rparr>"
  have step: "delete_github_token env tid (Some r) s = (Inr (), ?s1)"
    by (rule delete_github_token_Inr [OF credential_info_repo(2) [OF Cons.prems]])
  have "get_git_credential_info env ?s1 tid None = get_git_credential_info env s tid None"
    by (rule credential_info_cong) simp
  then have "get_git_credential_info env ?s1 tid None = Inr (host, bare)"
    using Cons.prems by simp
  from Cons.IH [OF this] show ?case
    by (simp add: step)
qed

lemma get_tenant_repos_clear:
  "get_tenant_repos tid (clear_tenant_repos env tid s) = []"
  by (simp add: get_tenant_repos_def clear_tenant_repos_def save_config_def Let_def
      split: option.splits)

lemma clear_tenant_repos_entry:
  "(case cfg_tenant_repos (config (clear_tenant_repos env tid s)) of
      None \<Rightarrow> True
    | Some m \<Rightarrow> m tid = None)"
  by (simp add: clear_tenant_repos_def save_config_def Let_def split: option.splits)

lemma get_tenant_repos_calls [simp]:
  "get_tenant_repos tid (s\<lparr>calls := cs\<rparr>) = get_tenant_repos tid s"
  by (simp add: get_tenant_repos_def)

lemma clear_tenant_repos_calls:
  "calls (clear_tenant_repos env tid s) = calls s"
  by (simp add: clear_tenant_repos_def save_config_def Let_def)

lemma add_tenant_loop_present:
  "tid \<in> tenant_id ` set ts \<Longrightarrow>
     add_tenant_loop tid nm ts =
       ts[length (takeWhile (\<lambda>t. tenant_id t \<noteq> tid) ts) :=
            (ts ! length (takeWhile (\<lambda>t. tenant_id t \<noteq> tid) ts))\<lparr>name := nm\<rparr>]"
  by (induction ts) auto

lemma add_tenant_loop_absent:
  "tid \<notin> tenant_id ` set ts \<Longrightarrow>
     add_tenant_loop tid nm ts = ts @ [\<lparr>tenant_id = tid, name = nm\<rparr>]"
  by (induction ts) auto

lemma add_tenant_loop_ids:
  "map tenant_id (add_tenant_loop tid nm ts) =
     (if tid \<in> tenant_id ` set ts then map tenant_id ts else map tenant_id ts @ [tid])"
  by (induction ts) auto

lemma add_tenant_loop_member:
  "tid \<in> tenant_id ` set (add_tenant_loop tid nm ts)"
  by (induction ts) auto

lemma add_tenant_loop_filter:
  "distinct (map tenant_id ts) \<Longrightarrow>
     filter (\<lambda>t. tenant_id t = tid) (add_tenant_loop tid nm ts) = [\<lparr>tenant_id = tid, name = nm\<rparr>]"
proof (induction ts)
  case Nil
  then show ?case by simp
next
  case (Cons t ts)
  show ?case
  proof (cases "tenant_id t = tid")
    case True
    then have "tid \<notin> tenant_id ` set ts" using Cons.prems by auto
    then have "filter (\<lambda>t. tenant_id t = tid) ts = []"
      by (auto simp: filter_empty_conv)
    then show ?thesis using True by simp
  next
    case False
    then show ?thesis using Cons by simp
  qed
qed

lemma get_tenant_list_add_tenant:
  "get_tenant_list (add_tenant env tid nm s) = add_tenant_loop tid nm (get_tenant_list s)"
  by (simp add: add_tenant_def get_tenant_list_def save_config_def)

text \<open>
  C4 (as amended). When the identity of the tenant can be derived (no endpoint is
  configured, or the URL parser accepts it), \<^verbatim>\<open>delete_all_tenant_credentials\<close> returns
  normally for every behaviour of the helper, issues one reject request per registered
  repository name in list order, each with the identity derived for the tenant and that
  name, and afterwards the tenant has no entry in \<^verbatim>\<open>tenant_repos\<close>, so that its list of
  repositories is empty. When every registered
  name is non-empty the requests are the per-repository ones (path
  \<^verbatim>\<open>tenant_id/repo_name\<close>) and none of them is the request for the bare tenant path.
\<close>

theorem delete_all_tenant_credentials_erases_and_clears:
  assumes "get_git_credential_info env s tid None = Inr (host, bare)"
  shows "fst (delete_all_tenant_credentials env tid s) = Inr ()
    \<and> calls (snd (delete_all_tenant_credentials env tid s)) =
        calls s @ map (\<lambda>r. reject_request host (if r = [] then tid else tid @ ''/'' @ r) tid)
                    (get_tenant_repos tid s)
    \<and> (case cfg_tenant_repos (config (snd (delete_all_tenant_credentials env tid s))) of
          None \<Rightarrow> True
        | Some m \<Rightarrow> m tid = None)
    \<and> get_tenant_repos tid (snd (delete_all_tenant_credentials env tid s)) = []
    \<and> (list_all (\<lambda>r. r \<noteq> []) (get_tenant_repos tid s) \<longrightarrow>
         calls (snd (delete_all_tenant_credentials env tid s)) =
           calls s @ map (\<lambda>r. reject_request host (tid @ ''/'' @ r) tid) (get_tenant_repos tid s)
         \<and> reject_request host tid tid
             \<notin> set (map (\<lambda>r. reject_request host (tid @ ''/'' @ r) tid) (get_tenant_repos tid s)))"
proof -
  let ?rs = "get_tenant_repos tid s"
  let ?erase = "\<lambda>r. reject_request host (if r = [] then tid else tid @ ''/'' @ r) tid"
  have all: "delete_all_tenant_credentials env tid s =
      (Inr (), clear_tenant_repos env tid (s\<lparr>calls := calls s @ map ?erase ?rs\<rparr>))"
    by (simp add: delete_all_tenant_credentials_def delete_each_calls [OF assms])
  have nonempty: "map ?erase ?rs = map (\<lambda>r. reject_request host (tid @ ''/'' @ r) tid) ?rs"
    if "list_all (\<lambda>r. r \<noteq> []) ?rs"
    using that by (simp add: list_all_iff)
  have bare: "reject_request host tid tid \<noteq> reject_request host (tid @ ''/'' @ r) tid" for r
    by (simp add: reject_request_def)
  show ?thesis
    unfolding all
    using nonempty bare
      clear_tenant_repos_entry [where env = env and tid = tid
        and s = "s\<lparr>calls := calls s @ map ?erase ?rs\<rparr>"]
    by (auto simp: clear_tenant_repos_calls get_tenant_repos_clear)
qed

text \<open>
  Two repositories, every helper call times out: two reject requests, the list is cleared.
\<close>

theorem delete_all_tenant_credentials_erases_and_clears_witness:
  "get_git_credential_info (example_env Map.empty timing_out)
       (set_tenant_repos (example_env Map.empty timing_out) ''t1'' [''r1'', ''r2'']
          (example_state None)) ''t1'' None
     = Inr (''candy-lfs.local'', ''t1'')
   \<and> get_tenant_repos ''t1''
       (set_tenant_repos (example_env Map.empty timing_out) ''t1'' [''r1'', ''r2'']
          (example_state None))
     = [''r1'', ''r2'']
   \<and> calls (snd (delete_all_tenant_credentials (example_env Map.empty timing_out) ''t1''
        (set_tenant_repos (example_env Map.empty timing_out) ''t1'' [''r1'', ''r2'']
          (example_state None))))
     = [reject_request ''candy-lfs.local'' ''t1/r1'' ''t1'',
        reject_request ''candy-lfs.local'' ''t1/r2'' ''t1'']
   \<and> get_tenant_repos ''t1''
       (snd (delete_all_tenant_credentials (example_env Map.empty timing_out) ''t1''
          (set_tenant_repos (example_env Map.empty timing_out) ''t1'' [''r1'', ''r2'']
            (example_state None))))
     = []"
  using delete_all_tenant_credentials_erases_and_clears
    [where env = "example_env Map.empty timing_out"
      and s = "set_tenant_repos (example_env Map.empty timing_out) ''t1'' [''r1'', ''r2'']
                 (example_state None)"
      and tid = "''t1''" and host = "''candy-lfs.local''" and bare = "''t1''"]
  by (simp add: get_git_credential_info_def example_defs set_tenant_repos_def
      save_config_def get_tenant_repos_def)

text \<open>
  C4 as stated fails: a registered empty repository name is erased under the bare tenant
  path; and with an endpoint the URL parser refuses, the operation raises at the first
  repository and the list stays.
\<close>

theorem delete_all_tenant_credentials_counterexample:
  "calls (snd (delete_all_tenant_credentials (example_env Map.empty timing_out) ''t1''
        (set_tenant_repos (example_env Map.empty timing_out) ''t1'' [[]]
          (example_state None))))
     = [reject_request ''candy-lfs.local'' ''t1'' ''t1'']
   \<and> get_git_credential_info (example_env Map.empty timing_out) (example_state None) ''t1'' None
     = Inr (''candy-lfs.local'', ''t1'')
   \<and> fst (delete_all_tenant_credentials (example_env Map.empty timing_out) ''t1''
        (set_tenant_repos (example_env Map.empty timing_out) ''t1'' [''r1'']
          (example_state (Some ''https://[::1''))))
     = Inl ValueError
   \<and> get_tenant_repos ''t1''
       (snd (delete_all_tenant_credentials (example_env Map.empty timing_out) ''t1''
          (set_tenant_repos (example_env Map.empty timing_out) ''t1'' [''r1'']
            (example_state (Some ''https://[::1'')))))
     = [''r1'']"
  by (simp add: delete_all_tenant_credentials_def delete_github_token_def
      git_credential_erase_def run_def clear_tenant_repos_def
      get_git_credential_info_def example_defs urlparse_defs set_tenant_repos_def
      save_config_def get_tenant_repos_def)

text \<open>
  C5. If the tenant identifier is present, \<^verbatim>\<open>add_tenant\<close> replaces the name of the first
  entry with it, in place: the list keeps its length and the identifier at every position.
  If it is absent, the new entry is appended at the end. A second \<^verbatim>\<open>add_tenant\<close> with
  the same identifier moves no identifier; and on a list with unique identifiers (the
  invariant of the document, which \<^verbatim>\<open>add_tenant\<close> preserves) the two calls leave exactly
  one entry with the identifier, bearing the second name. The document is persisted.
\<close>

theorem add_tenant_updates_or_appends:
  "(tid \<in> tenant_id ` set (get_tenant_list s) \<longrightarrow>
      get_tenant_list (add_tenant env tid nm s) =
        (get_tenant_list s)
          [length (takeWhile (\<lambda>t. tenant_id t \<noteq> tid) (get_tenant_list s)) :=
             (get_tenant_list s ! length (takeWhile (\<lambda>t. tenant_id t \<noteq> tid) (get_tenant_list s)))
               \<lparr>name := nm\<rparr>]
      \<and> length (get_tenant_list (add_tenant env tid nm s)) = length (get_tenant_list s)
      \<and> map tenant_id (get_tenant_list (add_tenant env tid nm s))
          = map tenant_id (get_tenant_list s))
   \<and> (tid \<notin> tenant_id ` set (get_tenant_list s) \<longrightarrow>
      get_tenant_list (add_tenant env tid nm s) =
        get_tenant_list s @ [\<lparr>tenant_id = tid, name = nm\<rparr>])
   \<and> map tenant_id (get_tenant_list (add_tenant env tid nm' (add_tenant env tid nm s)))
       = map tenant_id (get_tenant_list (add_tenant env tid nm s))
   \<and> (distinct (map tenant_id (get_tenant_list s)) \<longrightarrow>
      distinct (map tenant_id (get_tenant_list (add_tenant env tid nm s)))
      \<and> filter (\<lambda>t. tenant_id t = tid)
           (get_tenant_list (add_tenant env tid nm' (add_tenant env tid nm s)))
          = [\<lparr>tenant_id = tid, name = nm'\<rparr>])
   \<and> config_file (add_tenant env tid nm s) = Some (yaml_dump env (config (add_tenant env tid nm s)))"
proof -
  let ?ts = "get_tenant_list s"
  let ?ts1 = "add_tenant_loop tid nm ?ts"
  have ids: "map tenant_id ?ts1 = map tenant_id ?ts" if "tid \<in> tenant_id ` set ?ts"
    using that by (simp add: add_tenant_loop_ids)
  have len: "length ?ts1 = length ?ts" if "tid \<in> tenant_id ` set ?ts"
    using ids [OF that] by (metis length_map)
  have d1: "distinct (map tenant_id ?ts1)" if "distinct (map tenant_id ?ts)"
    using that by (simp add: add_tenant_loop_ids)
  have twice: "map tenant_id (add_tenant_loop tid nm' ?ts1) = map tenant_id ?ts1"
    using add_tenant_loop_member [of tid nm ?ts]
    by (simp add: add_tenant_loop_ids [of tid nm' ?ts1])
  have one: "filter (\<lambda>t. tenant_id t = tid) (add_tenant_loop tid nm' ?ts1)
      = [\<lparr>tenant_id = tid, name = nm'\<rparr>]" if "distinct (map tenant_id ?ts)"
    by (rule add_tenant_loop_filter [OF d1 [OF that]])
  have saved: "config_file (add_tenant env tid nm s)
      = Some (yaml_dump env (config (add_tenant env tid nm s)))"
    by (simp add: add_tenant_def save_config_def)
  show ?thesis
    unfolding get_tenant_list_add_tenant
    using add_tenant_loop_present [of tid ?ts nm] add_tenant_loop_absent [of tid ?ts nm]
      ids len d1 twice one saved
    by blast
qed

text \<open>
  Two tenants are added, then the first is added again under another name.
\<close>

theorem add_tenant_updates_or_appends_witness:
  "get_tenant_list (add_tenant (example_env Map.empty unavailable) ''t2'' ''Second''
       (add_tenant (example_env Map.empty unavailable) ''t1'' ''First'' (example_state None)))
     = [\<lparr>tenant_id = ''t1'', name = ''First''\<rparr>, \<lparr>tenant_id = ''t2'', name = ''Second''\<rparr>]
   \<and> get_tenant_list (add_tenant (example_env Map.empty unavailable) ''t1'' ''Renamed''
       (add_tenant (example_env Map.empty unavailable) ''t2'' ''Second''
         (add_tenant (example_env Map.empty unavailable) ''t1'' ''First'' (example_state None))))
     = [\<lparr>tenant_id = ''t1'', name = ''Renamed''\<rparr>, \<lparr>tenant_id = ''t2'', name = ''Second''\<rparr>]"
  using add_tenant_updates_or_appends [where env = "example_env Map.empty unavailable"
      and tid = "''t2''" and nm = "''Second''" and nm' = "''Other''"
      and s = "add_tenant (example_env Map.empty unavailable) ''t1'' ''First'' (example_state None)"]
    add_tenant_updates_or_appends [where env = "example_env Map.empty unavailable"
      and tid = "''t1''" and nm = "''Renamed''" and nm' = "''Other''"
      and s = "add_tenant (example_env Map.empty unavailable) ''t2'' ''Second''
         (add_tenant (example_env Map.empty unavailable) ''t1'' ''First'' (example_state None))"]
  by (simp add: add_tenant_def get_tenant_list_def save_config_def example_defs)



text \<open>
  C7. After \<^verbatim>\<open>set_tenant_repos\<close> the tenant's list is exactly the given one, in the same
  order, whatever it was before; the lists of other tenants are unchanged; the document is
  persisted; and a tenant without a registered list has the empty list.
\<close>

theorem set_tenant_repos_then_get:
  "get_tenant_repos tid (set_tenant_repos env tid names s) = names
   \<and> (other \<noteq> tid \<longrightarrow>
        get_tenant_repos other (set_tenant_repos env tid names s) = get_tenant_repos other s)
   \<and> config_file (set_tenant_repos env tid names s)
       = Some (yaml_dump env (config (set_tenant_repos env tid names s)))
   \<and> ((case cfg_tenant_repos (config s) of None \<Rightarrow> True | Some m \<Rightarrow> m other = None) \<longrightarrow>
        get_tenant_repos other s = [])"
  by (auto simp: get_tenant_repos_def set_tenant_repos_def save_config_def Let_def
      split: option.splits)

text \<open>
  The list of the spec's example, and an unknown tenant.
\<close>

theorem set_tenant_repos_then_get_witness:
  "get_tenant_repos ''t1''
       (set_tenant_repos (example_env Map.empty unavailable) ''t1'' [''r1'', ''r2'']
          (example_state None))
     = [''r1'', ''r2'']
   \<and> get_tenant_repos ''unknown''
       (set_tenant_repos (example_env Map.empty unavailable) ''t1'' [''r1'', ''r2'']
          (example_state None))
     = []
   \<and> cfg_tenant_repos (config (example_state None)) = None
   \<and> get_tenant_repos ''unknown'' (example_state None) = []"
  using set_tenant_repos_then_get [where env = "example_env Map.empty unavailable"
      and tid = "''t1''" and names = "[''r1'', ''r2'']" and s = "example_state None"
      and other = "''unknown''"]
  by (simp add: example_defs)



end
